theory Spec2Isabelle
  imports Main "HOL-Library.Sublist" "HOL-Library.AList"
begin

section \<open>The AI request gateway of axiom: values and effects\<close>

text \<open>
  The development embeds \<^verbatim>\<open>lib/gemini.js\<close> (the class \<^verbatim>\<open>GeminiAI\<close>, called the Gateway)
  and the two API routes \<^verbatim>\<open>pages/api/gemini/chat.js\<close> and
  \<^verbatim>\<open>pages/api/gemini/project-builder.js\<close> (the Dispatcher). JavaScript text is a
  \<open>string\<close>, read as the UTF-8 bytes of the text; every literal of the source is ASCII.
\<close>

subsection \<open>JSON values\<close>

text \<open>
  What \<^verbatim>\<open>JSON.parse\<close> returns and \<^verbatim>\<open>res.json\<close> sends. An object is the list of its
  properties in enumeration order, with distinct keys. A number is carried as the numeral
  that denotes it: its IEEE-754 value is not modelled, and no statement below depends on it.
\<close>

datatype json =
    JNull
  | JBool bool
  | JNumber string
  | JString string
  | JArray "json list"
  | JObject "(string \<times> json) list"

text \<open>Reading a property of a JSON value: \<open>None\<close> is JavaScript's \<^verbatim>\<open>undefined\<close>.\<close>

fun field :: "string \<Rightarrow> json \<Rightarrow> json option" where
  "field k (JObject ms) = map_of ms k"
| "field k _ = None"

subsection \<open>The provider, the console and the clock\<close>

text \<open>
  The generative model is a collaborator: \<^verbatim>\<open>model.generateContent(prompt)\<close> followed by
  \<^verbatim>\<open>result.response\<close> and \<^verbatim>\<open>response.text()\<close> either yields the response text
  (\<open>Inr text\<close>) or throws an error with some message (\<open>Inl m\<close>). The provider is a
  function of the prompt; the world records every prompt submitted to it and every line
  written with \<^verbatim>\<open>console.error\<close>. The clock reading \<^verbatim>\<open>new Date().toISOString()\<close> is a
  parameter \<open>now\<close> of the handlers.
\<close>

type_synonym provider = "string \<Rightarrow> string + string"

text \<open>
  Some operations of the source throw a \<^verbatim>\<open>TypeError\<close> or a \<^verbatim>\<open>SyntaxError\<close> of the
  JavaScript engine itself: destructuring a \<^verbatim>\<open>req.body\<close> that is \<^verbatim>\<open>null\<close> or
  \<^verbatim>\<open>undefined\<close> (the argument names the first property read), calling \<^verbatim>\<open>join\<close> on a
  value that is \<^verbatim>\<open>null\<close> or has no such method, and \<^verbatim>\<open>JSON.parse\<close> on a text that is
  not JSON. The wording of these errors is the engine's and not the repository's: it is
  a parameter \<open>engine\<close>, from the fault to the message.
\<close>

datatype fault =
    Destructure_of_null string
  | Destructure_of_undefined string
  | Join_of_null
  | Join_not_a_function
  | Json_syntax string

type_synonym engine = "fault \<Rightarrow> string"

text \<open>What a \<^verbatim>\<open>catch\<close> clause binds: an error of one of three classes, with its message.\<close>

datatype js_error = Error string | TypeError string | SyntaxError string

text \<open>\<^verbatim>\<open>error.message\<close>.\<close>

fun message_of :: "js_error \<Rightarrow> string" where
  "message_of (Error m) = m"
| "message_of (TypeError m) = m"
| "message_of (SyntaxError m) = m"

record world =
  calls :: "string list"
  console :: "(string \<times> js_error) list"

definition generateContent :: "provider \<Rightarrow> string \<Rightarrow> world \<Rightarrow> (string + string) \<times> world" where
  "generateContent model prompt w = (model prompt, w\<lparr>calls := calls w @ [prompt]\<rparr>)"

definition console_error :: "string \<Rightarrow> js_error \<Rightarrow> world \<Rightarrow> world" where
  "console_error label e w = w\<lparr>console := console w @ [(label, e)]\<rparr>"

text \<open>
  The block every text-generating method of \<^verbatim>\<open>GeminiAI\<close> ends with:
  \<^verbatim>\<open>try { const result = await this.model.generateContent(prompt);
        const response = await result.response; return response.text(); }
  catch (error) { console.error(label, error); throw new Error(failure); }\<close>
  The result is \<open>Inr text\<close>, or \<open>Inl failure\<close> for the thrown \<^verbatim>\<open>new Error(failure)\<close>.
\<close>

definition generate :: "provider \<Rightarrow> string \<Rightarrow> string \<Rightarrow> string \<Rightarrow> world \<Rightarrow> (string + string) \<times> world" where
  "generate model prompt label failure w =
     (case generateContent model prompt w of
        (Inr text, w') \<Rightarrow> (Inr text, w')
      | (Inl m, w') \<Rightarrow> (Inl failure, console_error label (Error m) w'))"

section \<open>The text-generating methods of the Gateway\<close>

subsection \<open>Prompt assembly\<close>

text \<open>\<^verbatim>\<open>Array.prototype.join\<close> on an array of strings.\<close>

fun join :: "string \<Rightarrow> string list \<Rightarrow> string" where
  "join sep [] = []"
| "join sep [x] = x"
| "join sep (x # y # ys) = x @ sep @ join sep (y # ys)"

text \<open>The arrow function \<^verbatim>\<open>req => `- ${req}`\<close> of \<^verbatim>\<open>generateCode\<close> and \<^verbatim>\<open>generateJavaCode\<close>.\<close>

definition bullet :: "string \<Rightarrow> string" where
  "bullet req = ''- '' @ req"

definition generateCode_prompt :: "string \<Rightarrow> string \<Rightarrow> string list \<Rightarrow> string" where
  \<open>generateCode_prompt language description requirements =
     ''\<newline>'' @
     ''Generate '' @ language @ '' code for the following requirements:\<newline>'' @
     ''\<newline>'' @
     ''Description: '' @ description @ ''\<newline>'' @
     ''\<newline>'' @
     ''Requirements:\<newline>'' @
     join ''\<newline>'' (map bullet requirements) @ ''\<newline>'' @
     ''\<newline>'' @
     ''Please provide clean, well-commented code with proper error handling.\<newline>'' @
     ''Include any necessary imports or dependencies.\<newline>'' @
     ''\<newline>'' @
     ''Code:\<newline>''\<close>

definition generateCode :: "provider \<Rightarrow> string \<Rightarrow> string \<Rightarrow> string list \<Rightarrow> world \<Rightarrow> (string + string) \<times> world" where
  "generateCode model language description requirements w =
     generate model (generateCode_prompt language description requirements)
       ''Code generation error:'' ''Failed to generate code'' w"

definition analyzeCode_prompt :: "string \<Rightarrow> string \<Rightarrow> string" where
  \<open>analyzeCode_prompt code language =
     ''\<newline>'' @
     ''Analyze the following '' @ language @ '' code and provide:\<newline>'' @
     ''1. Code quality assessment\<newline>'' @
     ''2. Potential improvements\<newline>'' @
     ''3. Security considerations\<newline>'' @
     ''4. Performance optimizations\<newline>'' @
     ''5. Best practices recommendations\<newline>'' @
     ''\<newline>'' @
     ''Code to analyze:\<newline>'' @
     ''```'' @ language @ ''\<newline>'' @
     code @ ''\<newline>'' @
     ''```\<newline>'' @
     ''\<newline>'' @
     ''Analysis:\<newline>''\<close>

definition analyzeCode :: "provider \<Rightarrow> string \<Rightarrow> string \<Rightarrow> world \<Rightarrow> (string + string) \<times> world" where
  "analyzeCode model code language w =
     generate model (analyzeCode_prompt code language)
       ''Code analysis error:'' ''Failed to analyze code'' w"

definition generateFirebaseFunction_prompt :: "string \<Rightarrow> string \<Rightarrow> string" where
  \<open>generateFirebaseFunction_prompt functionName description =
     ''\<newline>'' @
     ''Create a Firebase Cloud Function with the following specifications:\<newline>'' @
     ''\<newline>'' @
     ''Function Name: '' @ functionName @ ''\<newline>'' @
     ''Description: '' @ description @ ''\<newline>'' @
     ''\<newline>'' @
     ''Requirements:\<newline>'' @
     ''- Use Firebase Functions v2 syntax\<newline>'' @
     ''- Include proper error handling\<newline>'' @
     ''- Add appropriate logging\<newline>'' @
     ''- Include input validation\<newline>'' @
     ''- Follow Firebase best practices\<newline>'' @
     ''- Return appropriate HTTP responses\<newline>'' @
     ''\<newline>'' @
     ''Generate the complete function code:\<newline>''\<close>

definition generateFirebaseFunction :: "provider \<Rightarrow> string \<Rightarrow> string \<Rightarrow> world \<Rightarrow> (string + string) \<times> world" where
  "generateFirebaseFunction model functionName description w =
     generate model (generateFirebaseFunction_prompt functionName description)
       ''Firebase function generation error:'' ''Failed to generate Firebase function'' w"

definition generateJavaCode_prompt :: "string \<Rightarrow> string \<Rightarrow> string list \<Rightarrow> string" where
  \<open>generateJavaCode_prompt className description features =
     ''\<newline>'' @
     ''Generate Advanced Java code for a class named "'' @ className @ ''":\<newline>'' @
     ''\<newline>'' @
     ''Description: '' @ description @ ''\<newline>'' @
     ''\<newline>'' @
     ''Features to implement:\<newline>'' @
     join ''\<newline>'' (map bullet features) @ ''\<newline>'' @
     ''\<newline>'' @
     ''Requirements:\<newline>'' @
     ''- Use Java 21 features where appropriate\<newline>'' @
     ''- Include proper JavaDoc comments\<newline>'' @
     ''- Implement appropriate design patterns\<newline>'' @
     ''- Add error handling and validation\<newline>'' @
     ''- Include unit test examples\<newline>'' @
     ''- Follow clean code principles\<newline>'' @
     ''\<newline>'' @
     ''Generate the complete Java class:\<newline>''\<close>

definition generateJavaCode :: "provider \<Rightarrow> string \<Rightarrow> string \<Rightarrow> string list \<Rightarrow> world \<Rightarrow> (string + string) \<times> world" where
  "generateJavaCode model className description features w =
     generate model (generateJavaCode_prompt className description features)
       ''Java code generation error:'' ''Failed to generate Java code'' w"

subsection \<open>Chat with conversation history\<close>

text \<open>A turn of the conversation, \<^verbatim>\<open>{ role, content }\<close>.\<close>

record turn =
  role :: string
  content :: string

text \<open>The arrow function \<^verbatim>\<open>msg => msg.role + ': ' + msg.content\<close>.\<close>

definition render_turn :: "turn \<Rightarrow> string" where
  "render_turn t = role t @ '': '' @ content t"

definition chat_prompt :: "string \<Rightarrow> turn list \<Rightarrow> string" where
  "chat_prompt msg conversation =
     (let context =
        (if length conversation > 0
         then ''Previous conversation:\<newline>'' @ join ''\<newline>'' (map render_turn conversation) @ ''\<newline>\<newline>''
         else '''')
      in context @ ''User: '' @ msg)"

definition chat :: "provider \<Rightarrow> string \<Rightarrow> turn list \<Rightarrow> world \<Rightarrow> (string + string) \<times> world" where
  "chat model msg conversation w =
     generate model (chat_prompt msg conversation)
       ''Chat error:'' ''Failed to process chat message'' w"

section \<open>The JSON functions of the JavaScript runtime\<close>

text \<open>
  \<^verbatim>\<open>JSON.parse\<close> and \<^verbatim>\<open>JSON.stringify\<close> belong to the runtime, not to the repository.
  They are modelled after the JSON grammar of ECMA-404, which \<^verbatim>\<open>JSON.parse\<close> accepts
  exactly: a lexer turns the text into tokens, and a pushdown recogniser builds the value.
\<close>

subsection \<open>Tokens\<close>

datatype token =
    LBrace | RBrace | LBracket | RBracket | Colon | Comma
  | TString string | TNumber string | TTrue | TFalse | TNull

text \<open>JSON whitespace: tab, line feed, carriage return, space.\<close>

definition is_ws :: "char \<Rightarrow> bool" where
  "is_ws c = (c = CHR 0x09 \<or> c = CHR 0x0A \<or> c = CHR 0x0D \<or> c = CHR 0x20)"

definition is_digit :: "char \<Rightarrow> bool" where
  "is_digit c = (48 \<le> (of_char c :: int) \<and> (of_char c :: int) \<le> 57)"

definition hex_value :: "char \<Rightarrow> int option" where
  "hex_value c =
     (let n = (of_char c :: int) in
      if 48 \<le> n \<and> n \<le> 57 then Some (n - 48)
      else if 65 \<le> n \<and> n \<le> 70 then Some (n - 55)
      else if 97 \<le> n \<and> n \<le> 102 then Some (n - 87)
      else None)"

text \<open>The four hexadecimal digits of a \<^verbatim>\<open>\uXXXX\<close> escape, as a UTF-16 code unit.\<close>

fun hex4 :: "string \<Rightarrow> int option" where
  "hex4 (a # b # c # d # rest) =
     (case (hex_value a, hex_value b, hex_value c, hex_value d) of
        (Some x, Some y, Some z, Some u) \<Rightarrow> Some (((x * 16 + y) * 16 + z) * 16 + u)
      | _ \<Rightarrow> None)"
| "hex4 _ = None"

text \<open>
  A string literal is read as pieces: a byte of the text as written (or the byte a
  two-character escape stands for), or the code unit of a \<^verbatim>\<open>\uXXXX\<close> escape.
  \<open>escape\<close> reads what follows a backslash.
\<close>

datatype piece = Byte char | Escape int

definition escape :: "string \<Rightarrow> (piece \<times> string) option" where
  "escape cs =
     (case cs of
        [] \<Rightarrow> None
      | e # es \<Rightarrow>
          if e = CHR 0x22 then Some (Byte (CHR 0x22), es)
          else if e = CHR 0x5C then Some (Byte (CHR 0x5C), es)
          else if e = CHR ''/'' then Some (Byte (CHR ''/''), es)
          else if e = CHR ''b'' then Some (Byte (CHR 0x08), es)
          else if e = CHR ''f'' then Some (Byte (CHR 0x0C), es)
          else if e = CHR ''n'' then Some (Byte (CHR 0x0A), es)
          else if e = CHR ''r'' then Some (Byte (CHR 0x0D), es)
          else if e = CHR ''t'' then Some (Byte (CHR 0x09), es)
          else if e = CHR ''u'' then
            (case hex4 es of None \<Rightarrow> None | Some n \<Rightarrow> Some (Escape n, drop 4 es))
          else None)"

lemma escape_shorter: "escape cs = Some (p, rest) \<Longrightarrow> length rest < length cs"
  by (auto simp: escape_def split: list.splits if_splits option.splits)

text \<open>
  The characters of a string literal after its opening quote, up to the closing quote:
  the pieces and the text that follows. A raw control character (below 0x20) or a missing
  closing quote is a syntax error.
\<close>

function string_pieces :: "string \<Rightarrow> (piece list \<times> string) option" where
  "string_pieces [] = None"
| "string_pieces (c # cs) =
     (if c = CHR 0x22 then Some ([], cs)
      else if c = CHR 0x5C then
        (case escape cs of
           None \<Rightarrow> None
         | Some (p, rest) \<Rightarrow>
             (case string_pieces rest of
                None \<Rightarrow> None
              | Some (ps, rest') \<Rightarrow> Some (p # ps, rest')))
      else if (of_char c :: int) < 32 then None
      else
        (case string_pieces cs of
           None \<Rightarrow> None
         | Some (ps, rest') \<Rightarrow> Some (Byte c # ps, rest')))"
  by pat_completeness auto
termination
  by (relation "measure length") (auto dest: escape_shorter)

lemma string_pieces_shorter:
  "string_pieces cs = Some (ps, rest) \<Longrightarrow> length rest < length cs"
proof (induction cs arbitrary: ps rest rule: string_pieces.induct)
  case 1
  then show ?case by simp
next
  case (2 c cs)
  then show ?case
    by (fastforce split: if_splits option.splits prod.splits dest: escape_shorter)
qed

text \<open>
  The bytes of a decoded string: a code unit is written in UTF-8, a surrogate pair as the
  four bytes of its code point.
\<close>

definition utf8 :: "int \<Rightarrow> string" where
  "utf8 n =
     (if n < 0x80 then [char_of n]
      else if n < 0x800 then [char_of (0xC0 + n div 0x40), char_of (0x80 + n mod 0x40)]
      else if n < 0x10000 then
        [char_of (0xE0 + n div 0x1000), char_of (0x80 + n div 0x40 mod 0x40),
         char_of (0x80 + n mod 0x40)]
      else
        [char_of (0xF0 + n div 0x40000), char_of (0x80 + n div 0x1000 mod 0x40),
         char_of (0x80 + n div 0x40 mod 0x40), char_of (0x80 + n mod 0x40)])"

fun decode :: "piece list \<Rightarrow> string" where
  "decode [] = []"
| "decode (Byte c # ps) = c # decode ps"
| "decode (Escape h # Escape l # ps) =
     (if 0xD800 \<le> h \<and> h < 0xDC00 \<and> 0xDC00 \<le> l \<and> l < 0xE000
      then utf8 (0x10000 + (h - 0xD800) * 0x400 + (l - 0xDC00)) @ decode ps
      else utf8 h @ decode (Escape l # ps))"
| "decode (Escape n # ps) = utf8 n @ decode ps"

text \<open>
  A number: an optional minus, an integer part without a leading zero, an optional
  fraction, an optional exponent. Each part gives its numeral and the text that follows.
\<close>

definition int_part :: "string \<Rightarrow> (string \<times> string) option" where
  "int_part cs =
     (case cs of
        [] \<Rightarrow> None
      | c # cs' \<Rightarrow>
          if c = CHR ''0'' then Some ([c], cs')
          else if is_digit c then Some (c # takeWhile is_digit cs', dropWhile is_digit cs')
          else None)"

definition frac_part :: "string \<Rightarrow> (string \<times> string) option" where
  "frac_part cs =
     (case cs of
        [] \<Rightarrow> Some ([], [])
      | c # cs' \<Rightarrow>
          if c = CHR ''.'' then
            (if takeWhile is_digit cs' = [] then None
             else Some (c # takeWhile is_digit cs', dropWhile is_digit cs'))
          else Some ([], cs))"

definition exp_part :: "string \<Rightarrow> (string \<times> string) option" where
  "exp_part cs =
     (case cs of
        [] \<Rightarrow> Some ([], [])
      | c # cs' \<Rightarrow>
          if c = CHR ''e'' \<or> c = CHR ''E'' then
            (let sign = (if take 1 cs' = ''+'' \<or> take 1 cs' = ''-'' then take 1 cs' else []);
                 ds = drop (length sign) cs'
             in if takeWhile is_digit ds = [] then None
                else Some (c # sign @ takeWhile is_digit ds, dropWhile is_digit ds))
          else Some ([], cs))"

definition number :: "string \<Rightarrow> (string \<times> string) option" where
  "number cs =
     (let sign = (if take 1 cs = ''-'' then ''-'' else []) in
      case int_part (drop (length sign) cs) of
        None \<Rightarrow> None
      | Some (i, r1) \<Rightarrow>
          (case frac_part r1 of
             None \<Rightarrow> None
           | Some (f, r2) \<Rightarrow>
               (case exp_part r2 of
                  None \<Rightarrow> None
                | Some (e, r3) \<Rightarrow> Some (sign @ i @ f @ e, r3))))"

lemma int_part_shorter: "int_part cs = Some (i, rest) \<Longrightarrow> length rest < length cs"
  by (auto simp: int_part_def less_Suc_eq_le length_dropWhile_le split: list.splits if_splits)

lemma frac_part_shorter: "frac_part cs = Some (f, rest) \<Longrightarrow> length rest \<le> length cs"
  by (auto simp: frac_part_def le_SucI length_dropWhile_le split: list.splits if_splits)

lemma exp_part_shorter: "exp_part cs = Some (e, rest) \<Longrightarrow> length rest \<le> length cs"
  by (auto simp: exp_part_def Let_def le_SucI intro: order_trans[OF length_dropWhile_le]
      split: list.splits if_splits)

lemma number_shorter: "number cs = Some (l, rest) \<Longrightarrow> length rest < length cs"
  unfolding number_def Let_def
  by (auto split: option.splits prod.splits if_splits
      dest!: int_part_shorter frac_part_shorter exp_part_shorter)

text \<open>The lexer: \<open>None\<close> when the text has a character sequence that is no JSON token.\<close>

function lex :: "string \<Rightarrow> token list option" where
  "lex [] = Some []"
| "lex (c # cs) =
     (if is_ws c then lex cs
      else if c = CHR ''{'' then map_option (Cons LBrace) (lex cs)
      else if c = CHR ''}'' then map_option (Cons RBrace) (lex cs)
      else if c = CHR ''['' then map_option (Cons LBracket) (lex cs)
      else if c = CHR '']'' then map_option (Cons RBracket) (lex cs)
      else if c = CHR '':'' then map_option (Cons Colon) (lex cs)
      else if c = CHR '','' then map_option (Cons Comma) (lex cs)
      else if c = CHR 0x22 then
        (case string_pieces cs of
           None \<Rightarrow> None
         | Some (ps, rest) \<Rightarrow> map_option (Cons (TString (decode ps))) (lex rest))
      else if c = CHR ''t'' then
        (if take 3 cs = ''rue'' then map_option (Cons TTrue) (lex (drop 3 cs)) else None)
      else if c = CHR ''f'' then
        (if take 4 cs = ''alse'' then map_option (Cons TFalse) (lex (drop 4 cs)) else None)
      else if c = CHR ''n'' then
        (if take 3 cs = ''ull'' then map_option (Cons TNull) (lex (drop 3 cs)) else None)
      else if c = CHR ''-'' \<or> is_digit c then
        (case number (c # cs) of
           None \<Rightarrow> None
         | Some (l, rest) \<Rightarrow> map_option (Cons (TNumber l)) (lex rest))
      else None)"
  by pat_completeness auto
termination
proof (relation "measure length", goal_cases)
  case (9 c cs x2 x y)
  then show ?case using string_pieces_shorter [of cs x y] by simp
next
  case (13 c cs x2 x y)
  then show ?case using number_shorter [of "c # cs" x y] by simp
qed simp_all

subsection \<open>The grammar\<close>

text \<open>
  The properties of an object created by \<^verbatim>\<open>JSON.parse\<close> enumerate with the array-index
  keys first, in ascending order, and the other keys in the order of their first
  occurrence; a repeated key keeps its place and takes the later value
  (\<open>AList.update\<close>).
\<close>

definition array_index :: "string \<Rightarrow> int option" where
  "array_index k =
     (if k = [] then None
      else if hd k = CHR ''0'' \<and> length k > 1 then None
      else if list_all is_digit k then
        (let n = fold (\<lambda>c n. 10 * n + ((of_char c :: int) - 48)) k 0
         in if n < 4294967295 then Some n else None)
      else None)"

definition enumeration_order :: "(string \<times> json) list \<Rightarrow> (string \<times> json) list" where
  "enumeration_order ms =
     map snd (sort_key fst
       (List.map_filter (\<lambda>m. map_option (\<lambda>n. (n, m)) (array_index (fst m))) ms))
     @ filter (\<lambda>m. array_index (fst m) = None) ms"

text \<open>
  The recogniser keeps a stack of the arrays and objects that are open: an array with
  the elements read so far (latest first), an object with its members so far and the
  key whose value is being read. Its state says what may come next.
\<close>

datatype frame = InArray "json list" | InObject "(string \<times> json) list" string

datatype pstate =
    NeedValue "frame list"
  | ArrayOpened "frame list"
  | ObjectOpened "frame list"
  | NeedKey "(string \<times> json) list" "frame list"
  | NeedColon "(string \<times> json) list" string "frame list"
  | Have json "frame list"

fun begin_value :: "token \<Rightarrow> frame list \<Rightarrow> pstate option" where
  "begin_value (TString s) fs = Some (Have (JString s) fs)"
| "begin_value (TNumber l) fs = Some (Have (JNumber l) fs)"
| "begin_value TTrue fs = Some (Have (JBool True) fs)"
| "begin_value TFalse fs = Some (Have (JBool False) fs)"
| "begin_value TNull fs = Some (Have JNull fs)"
| "begin_value LBracket fs = Some (ArrayOpened fs)"
| "begin_value LBrace fs = Some (ObjectOpened fs)"
| "begin_value _ fs = None"

fun step :: "pstate \<Rightarrow> token \<Rightarrow> pstate option" where
  "step (NeedValue fs) t = begin_value t fs"
| "step (ArrayOpened fs) RBracket = Some (Have (JArray []) fs)"
| "step (ArrayOpened fs) t = begin_value t (InArray [] # fs)"
| "step (ObjectOpened fs) RBrace = Some (Have (JObject []) fs)"
| "step (ObjectOpened fs) (TString k) = Some (NeedColon [] k fs)"
| "step (NeedKey ms fs) (TString k) = Some (NeedColon ms k fs)"
| "step (NeedColon ms k fs) Colon = Some (NeedValue (InObject ms k # fs))"
| "step (Have v (InArray vs # fs)) Comma = Some (NeedValue (InArray (v # vs) # fs))"
| "step (Have v (InArray vs # fs)) RBracket = Some (Have (JArray (rev (v # vs))) fs)"
| "step (Have v (InObject ms k # fs)) Comma = Some (NeedKey (AList.update k v ms) fs)"
| "step (Have v (InObject ms k # fs)) RBrace =
     Some (Have (JObject (enumeration_order (AList.update k v ms))) fs)"
| "step _ _ = None"

text \<open>The text is JSON when the tokens end with one complete value and nothing open.\<close>

fun run :: "pstate \<Rightarrow> token list \<Rightarrow> json option" where
  "run (Have v []) [] = Some v"
| "run s [] = None"
| "run s (t # ts) = (case step s t of None \<Rightarrow> None | Some s' \<Rightarrow> run s' ts)"

text \<open>\<^verbatim>\<open>JSON.parse(text)\<close>: the value, or \<open>None\<close> where it throws a \<^verbatim>\<open>SyntaxError\<close>.\<close>

definition JSON_parse :: "string \<Rightarrow> json option" where
  "JSON_parse text = (case lex text of None \<Rightarrow> None | Some ts \<Rightarrow> run (NeedValue []) ts)"

subsection \<open>Serialisation with an indentation of two spaces\<close>

definition hex_digit :: "int \<Rightarrow> char" where
  "hex_digit n = (if n < 10 then char_of (48 + n) else char_of (87 + n))"

definition quote_char :: "char \<Rightarrow> string" where
  "quote_char c =
     (if c = CHR 0x22 then [CHR 0x5C, CHR 0x22]
      else if c = CHR 0x5C then [CHR 0x5C, CHR 0x5C]
      else if c = CHR 0x08 then [CHR 0x5C, CHR ''b'']
      else if c = CHR 0x0C then [CHR 0x5C, CHR ''f'']
      else if c = CHR 0x0A then [CHR 0x5C, CHR ''n'']
      else if c = CHR 0x0D then [CHR 0x5C, CHR ''r'']
      else if c = CHR 0x09 then [CHR 0x5C, CHR ''t'']
      else if (of_char c :: int) < 32 then
        [CHR 0x5C, CHR ''u'', CHR ''0'', CHR ''0'',
         hex_digit ((of_char c :: int) div 16), hex_digit ((of_char c :: int) mod 16)]
      else [c])"

definition quote :: "string \<Rightarrow> string" where
  "quote s = [CHR 0x22] @ concat (map quote_char s) @ [CHR 0x22]"

text \<open>
  \<open>stringify indent v\<close> is the text of \<open>v\<close> inside a container indented by \<open>indent\<close>.
  A number is written as the numeral it was read from, and the bytes of a string above
  0x7F are written as they are.
\<close>

fun stringify :: "string \<Rightarrow> json \<Rightarrow> string" where
  "stringify indent JNull = ''null''"
| "stringify indent (JBool b) = (if b then ''true'' else ''false'')"
| "stringify indent (JNumber l) = l"
| "stringify indent (JString s) = quote s"
| "stringify indent (JArray vs) =
     (if vs = [] then ''[]''
      else ''[\<newline>'' @ indent @ ''  '' @
           join ('',\<newline>'' @ indent @ ''  '') (map (stringify (indent @ ''  '')) vs) @
           ''\<newline>'' @ indent @ '']'')"
| "stringify indent (JObject ms) =
     (if ms = [] then ''{}''
      else ''{\<newline>'' @ indent @ ''  '' @
           join ('',\<newline>'' @ indent @ ''  '')
             (map (\<lambda>m. quote (fst m) @ '': '' @ stringify (indent @ ''  '') (snd m)) ms) @
           ''\<newline>'' @ indent @ ''}'')"

text \<open>\<^verbatim>\<open>JSON.stringify(v, null, 2)\<close>.\<close>

definition JSON_stringify :: "json \<Rightarrow> string" where
  "JSON_stringify v = stringify [] v"

section \<open>The project plan\<close>

text \<open>
  The template of \<^verbatim>\<open>generateProjectPlan\<close>: the text before \<^verbatim>\<open>Project Type:\<close> and the
  text after the user's prompt.
\<close>

definition plan_preamble :: string where
  \<open>plan_preamble =
     ''\<newline>'' @
     ''You are an expert software architect and project builder. Based on the user's prompt, generate a comprehensive project plan including:\<newline>'' @
     ''\<newline>'' @
     ''1. PROJECT ANALYSIS\<newline>'' @
     ''   - Understanding of requirements\<newline>'' @
     ''   - Technology recommendations\<newline>'' @
     ''   - Architecture decisions\<newline>'' @
     ''\<newline>'' @
     ''2. FILE STRUCTURE\<newline>'' @
     ''   - Complete directory structure\<newline>'' @
     ''   - File organization\<newline>'' @
     ''   - Naming conventions\<newline>'' @
     ''\<newline>'' @
     ''3. CODE GENERATION\<newline>'' @
     ''   - Component files with complete code\<newline>'' @
     ''   - Configuration files\<newline>'' @
     ''   - Package dependencies\<newline>'' @
     ''\<newline>'' @
     ''4. IMPLEMENTATION STEPS\<newline>'' @
     ''   - Step-by-step build process\<newline>'' @
     ''   - Command sequences\<newline>'' @
     ''   - Deployment instructions\<newline>'' @
     ''\<newline>'' @
     ''5. FIREBASE INTEGRATION\<newline>'' @
     ''   - Database schema\<newline>'' @
     ''   - Cloud functions\<newline>'' @
     ''   - Security rules\<newline>'' @
     ''   - Authentication setup\<newline>'' @
     ''\<newline>'' @
     ''6. JAVA INTEGRATION (if applicable)\<newline>'' @
     ''   - Java class structure\<newline>'' @
     ''   - Maven/Gradle configuration\<newline>'' @
     ''   - Spring Boot setup (if needed)\<newline>'' @
     ''   - Integration patterns\<newline>'' @
     ''\<newline>''\<close>

definition plan_schema :: string where
  \<open>plan_schema =
     ''Generate a detailed project plan in JSON format with the following structure:\<newline>'' @
     ''{\<newline>'' @
     ''  "analysis": "Project understanding and recommendations",\<newline>'' @
     ''  "architecture": "System architecture overview",\<newline>'' @
     ''  "fileStructure": {\<newline>'' @
     ''    "directories": ["list of directories to create"],\<newline>'' @
     ''    "files": [\<newline>'' @
     ''      {\<newline>'' @
     ''        "path": "relative/path/to/file",\<newline>'' @
     ''        "type": "javascript|java|json|markdown|css|html",\<newline>'' @
     ''        "content": "complete file content",\<newline>'' @
     ''        "description": "purpose of this file"\<newline>'' @
     ''      }\<newline>'' @
     ''    ]\<newline>'' @
     ''  },\<newline>'' @
     ''  "dependencies": {\<newline>'' @
     ''    "npm": ["list of npm packages"],\<newline>'' @
     ''    "maven": ["list of maven dependencies"],\<newline>'' @
     ''    "firebase": ["list of firebase services needed"]\<newline>'' @
     ''  },\<newline>'' @
     ''  "commands": {\<newline>'' @
     ''    "setup": ["initialization commands"],\<newline>'' @
     ''    "development": ["development commands"],\<newline>'' @
     ''    "deployment": ["deployment commands"]\<newline>'' @
     ''  },\<newline>'' @
     ''  "features": ["list of implemented features"],\<newline>'' @
     ''  "nextSteps": ["suggested next development steps"]\<newline>'' @
     ''}\<newline>'' @
     ''\<newline>'' @
     ''Ensure all code is production-ready, follows best practices, and includes proper error handling.\<newline>''\<close>

text \<open>
  A parameter of the method interpolated into the template: \<^verbatim>\<open>undefined\<close> is written
  \<^verbatim>\<open>undefined\<close>.
\<close>

definition interpolate :: "string option \<Rightarrow> string" where
  "interpolate s = (case s of None \<Rightarrow> ''undefined'' | Some t \<Rightarrow> t)"

definition generateProjectPlan_prompt :: "string option \<Rightarrow> string \<Rightarrow> string list \<Rightarrow> json \<Rightarrow> string" where
  "generateProjectPlan_prompt prompt projectType requirements buildContext =
     plan_preamble @
     ''Project Type: '' @ projectType @ ''\<newline>'' @
     ''Build Context: '' @ JSON_stringify buildContext @ ''\<newline>'' @
     ''Additional Requirements: '' @ join '', '' requirements @ ''\<newline>'' @
     ''\<newline>'' @
     ''User Prompt: '' @ interpolate prompt @ ''\<newline>'' @
     ''\<newline>'' @
     plan_schema"

text \<open>
  \<^verbatim>\<open>text.match(/\{[\s\S]*\}/)\<close>: the match starts at the first \<^verbatim>\<open>{\<close> and, the star being
  greedy, ends at the last \<^verbatim>\<open>}\<close> of the text; there is none when no \<^verbatim>\<open>}\<close> follows the
  first \<^verbatim>\<open>{\<close>. The result is \<^verbatim>\<open>jsonMatch[0]\<close>.
\<close>

definition jsonMatch :: "string \<Rightarrow> string option" where
  "jsonMatch text =
     (let opened = dropWhile (\<lambda>c. c \<noteq> CHR ''{'') text
      in if CHR ''}'' \<in> set opened
         then Some (rev (dropWhile (\<lambda>c. c \<noteq> CHR ''}'') (rev opened)))
         else None)"

text \<open>
  The \<^verbatim>\<open>requirements\<close> argument as a request can supply it: an array of strings,
  \<^verbatim>\<open>null\<close>, or a value of another type (a string, a number, a boolean, an object), which
  has no \<^verbatim>\<open>join\<close>. \<open>requirement_list\<close> is the array that \<^verbatim>\<open>requirements.join(', ')\<close> is
  called on, after the default \<^verbatim>\<open>[]\<close> for \<^verbatim>\<open>undefined\<close>, or the \<^verbatim>\<open>TypeError\<close> of the call.
\<close>

datatype js_requirements = StringArray "string list" | NullValue | OtherValue

definition requirement_list :: "engine \<Rightarrow> js_requirements option \<Rightarrow> js_error + string list" where
  "requirement_list engine requirements =
     (case requirements of
        None \<Rightarrow> Inr []
      | Some (StringArray r) \<Rightarrow> Inr r
      | Some NullValue \<Rightarrow> Inl (TypeError (engine Join_of_null))
      | Some OtherValue \<Rightarrow> Inl (TypeError (engine Join_not_a_function)))"

text \<open>
  \<^verbatim>\<open>generateProjectPlan(prompt, projectType = 'web', requirements = [], buildContext = {})\<close>.
  A parameter that is \<open>None\<close> takes its default. The template is filled before the
  \<^verbatim>\<open>try\<close> block, so a \<^verbatim>\<open>TypeError\<close> of \<^verbatim>\<open>requirements.join\<close> leaves the method as it
  is, with nothing submitted and nothing logged. The \<^verbatim>\<open>try\<close> block holds the provider
  call, the match and \<^verbatim>\<open>JSON.parse\<close>; its \<^verbatim>\<open>catch\<close> logs what was thrown and throws
  \<^verbatim>\<open>new Error('Failed to generate project plan')\<close>.
\<close>

definition generateProjectPlan ::
  "engine \<Rightarrow> provider \<Rightarrow> string option \<Rightarrow> string option \<Rightarrow> js_requirements option
     \<Rightarrow> json option \<Rightarrow> world \<Rightarrow> (js_error + json) \<times> world" where
  "generateProjectPlan engine model prompt projectType requirements buildContext w =
     (case requirement_list engine requirements of
        Inl e \<Rightarrow> (Inl e, w)
      | Inr required \<Rightarrow>
          (let systemPrompt =
             generateProjectPlan_prompt prompt
               (case projectType of None \<Rightarrow> ''web'' | Some t \<Rightarrow> t)
               required
               (case buildContext of None \<Rightarrow> JObject [] | Some c \<Rightarrow> c)
           in case generateContent model systemPrompt w of
                (Inl m, w') \<Rightarrow>
                  (Inl (Error ''Failed to generate project plan''),
                   console_error ''Project plan generation error:'' (Error m) w')
              | (Inr text, w') \<Rightarrow>
                  (case jsonMatch text of
                     Some matched \<Rightarrow>
                       (case JSON_parse matched of
                          Some plan \<Rightarrow> (Inr plan, w')
                        | None \<Rightarrow>
                            (Inl (Error ''Failed to generate project plan''),
                             console_error ''Project plan generation error:''
                               (SyntaxError (engine (Json_syntax matched))) w'))
                   | None \<Rightarrow>
                       (Inr (JObject [(''analysis'', JString text),
                                      (''error'', JString ''Could not parse structured project plan'')]),
                        w'))))"

section \<open>The routes\<close>

subsection \<open>The chat route\<close>

text \<open>
  The request as the route reads it: the HTTP method and \<^verbatim>\<open>req.body\<close>. The body is
  \<^verbatim>\<open>null\<close>, \<^verbatim>\<open>undefined\<close>, or a value that can be destructured, given by its fields
  \<^verbatim>\<open>{ message, mode, conversationHistory }\<close>, each at the type of the wire contract or
  absent (\<open>None\<close>, JavaScript's \<^verbatim>\<open>undefined\<close>).
\<close>

record chat_body =
  message :: "string option"
  mode :: "string option"
  conversationHistory :: "turn list option"

datatype 'b req_body = NullBody | UndefinedBody | Body 'b

record 'b request =
  req_method :: string
  body :: "'b req_body"

record response =
  status :: nat
  payload :: json

text \<open>
  \<^verbatim>\<open>!message\<close> for a string or \<^verbatim>\<open>undefined\<close>: \<open>truthy\<close> gives the message that
  passes the check, \<open>None\<close> when it is absent or empty.
\<close>

definition truthy :: "string option \<Rightarrow> string option" where
  "truthy m = (case m of None \<Rightarrow> None | Some s \<Rightarrow> if s = [] then None else Some s)"

text \<open>
  The \<^verbatim>\<open>switch (mode)\<close> of the route, on a message that passed the check. The route
  itself is the default export \<^verbatim>\<open>handler\<close> of \<^verbatim>\<open>chat.js\<close>, here \<open>chat_handler\<close>; the
  default export \<^verbatim>\<open>handler\<close> of \<^verbatim>\<open>project-builder.js\<close> is \<open>project_builder_handler\<close>.
\<close>

definition dispatch :: "provider \<Rightarrow> string \<Rightarrow> string \<Rightarrow> turn list \<Rightarrow> world \<Rightarrow> (string + string) \<times> world" where
  "dispatch model md msg conversation w =
     (if md = ''code'' then
        generateCode model ''javascript'' msg
          [''Clean, readable code'', ''Error handling'', ''Best practices''] w
      else if md = ''java'' then
        generateJavaCode model ''GeneratedClass'' msg
          [''Modern Java patterns'', ''Documentation'', ''Unit tests''] w
      else if md = ''firebase'' then
        generateFirebaseFunction model ''generatedFunction'' msg w
      else if md = ''analyze'' then
        analyzeCode model msg ''javascript'' w
      else
        chat model msg conversation w)"

text \<open>
  The \<^verbatim>\<open>catch\<close> clause of the chat route: it logs the error and answers 500 with the
  message of the error as \<^verbatim>\<open>details\<close>.
\<close>

definition chat_failed :: "js_error \<Rightarrow> world \<Rightarrow> response \<times> world" where
  "chat_failed e w =
     (\<lparr>status = 500,
       payload = JObject [(''error'', JString ''Failed to process chat message''),
                          (''details'', JString (message_of e))]\<rparr>,
      console_error ''Chat API Error:'' e w)"

text \<open>
  The destructuring \<^verbatim>\<open>const { message, mode = 'chat', conversationHistory = [] } = req.body\<close>
  is inside the \<^verbatim>\<open>try\<close> block: on a body that is \<^verbatim>\<open>null\<close> or \<^verbatim>\<open>undefined\<close> it throws,
  and the \<^verbatim>\<open>catch\<close> clause answers.
\<close>

definition chat_handler :: "engine \<Rightarrow> provider \<Rightarrow> string \<Rightarrow> chat_body request \<Rightarrow> world \<Rightarrow> response \<times> world" where
  "chat_handler engine model now req w =
     (if req_method req \<noteq> ''POST'' then
        (\<lparr>status = 405, payload = JObject [(''error'', JString ''Method not allowed'')]\<rparr>, w)
      else
        case body req of
          NullBody \<Rightarrow> chat_failed (TypeError (engine (Destructure_of_null ''message''))) w
        | UndefinedBody \<Rightarrow> chat_failed (TypeError (engine (Destructure_of_undefined ''message''))) w
        | Body b \<Rightarrow>
            let md = (case mode b of None \<Rightarrow> ''chat'' | Some m \<Rightarrow> m);
                conversation = (case conversationHistory b of None \<Rightarrow> [] | Some h \<Rightarrow> h)
            in case truthy (message b) of
                 None \<Rightarrow>
                   (\<lparr>status = 400, payload = JObject [(''error'', JString ''Message is required'')]\<rparr>, w)
               | Some msg \<Rightarrow>
                 (case dispatch model md msg conversation w of
                    (Inr text, w') \<Rightarrow>
                      (\<lparr>status = 200,
                        payload = JObject [(''success'', JBool True), (''response'', JString text),
                                           (''mode'', JString md), (''timestamp'', JString now)]\<rparr>, w')
                  | (Inl failure, w') \<Rightarrow> chat_failed (Error failure) w'))"

subsection \<open>The project-builder route\<close>

text \<open>
  The body \<^verbatim>\<open>{ prompt, projectType, requirements, buildContext }\<close>; \<^verbatim>\<open>buildContext\<close> is
  any JSON value.
\<close>

record project_body =
  prompt :: "string option"
  projectType :: "string option"
  requirements :: "js_requirements option"
  buildContext :: "json option"

text \<open>The \<^verbatim>\<open>catch\<close> clause of the project-builder route.\<close>

definition project_failed :: "js_error \<Rightarrow> world \<Rightarrow> response \<times> world" where
  "project_failed e w =
     (\<lparr>status = 500,
       payload = JObject [(''error'', JString ''Failed to generate project plan''),
                          (''details'', JString (message_of e))]\<rparr>,
      console_error ''Project Builder Error:'' e w)"

definition project_builder_handler ::
  "engine \<Rightarrow> provider \<Rightarrow> string \<Rightarrow> project_body request \<Rightarrow> world \<Rightarrow> response \<times> world" where
  "project_builder_handler engine model now req w =
     (if req_method req \<noteq> ''POST'' then
        (\<lparr>status = 405, payload = JObject [(''error'', JString ''Method not allowed'')]\<rparr>, w)
      else
        case body req of
          NullBody \<Rightarrow> project_failed (TypeError (engine (Destructure_of_null ''prompt''))) w
        | UndefinedBody \<Rightarrow> project_failed (TypeError (engine (Destructure_of_undefined ''prompt''))) w
        | Body b \<Rightarrow>
            (case generateProjectPlan engine model (prompt b) (projectType b) (requirements b)
                    (buildContext b) w of
               (Inr projectPlan, w') \<Rightarrow>
                 (\<lparr>status = 200,
                   payload = JObject [(''success'', JBool True), (''projectPlan'', projectPlan),
                                      (''timestamp'', JString now)]\<rparr>, w')
             | (Inl e, w') \<Rightarrow> project_failed e w'))"

section \<open>Notions used in the statements\<close>

text \<open>The world before a request, and an engine, used in the concrete instances.\<close>

definition idle :: world where
  "idle = \<lparr>calls = [], console = []\<rparr>"

fun sample_engine :: engine where
  "sample_engine (Destructure_of_null k) =
     ''Cannot destructure property '' @ k @ '' of req.body as it is null.''"
| "sample_engine (Destructure_of_undefined k) =
     ''Cannot destructure property '' @ k @ '' of req.body as it is undefined.''"
| "sample_engine Join_of_null = ''Cannot read properties of null (reading join)''"
| "sample_engine Join_not_a_function = ''requirements.join is not a function''"
| "sample_engine (Json_syntax s) = ''Unexpected token in JSON''"

text \<open>
  The shape contract as the specification words it: a JSON object with exactly the fixed
  top-level keys. The Gateway has no such check; \<open>spec_plan_shape\<close> is what the returned
  plan is compared with.
\<close>

definition plan_keys :: "string list" where
  "plan_keys = [''analysis'', ''architecture'', ''fileStructure'', ''dependencies'',
                ''commands'', ''features'', ''nextSteps'']"

definition spec_plan_shape :: "json \<Rightarrow> bool" where
  "spec_plan_shape v = (case v of JObject ms \<Rightarrow> set (map fst ms) = set plan_keys | _ \<Rightarrow> False)"

fun is_object :: "json \<Rightarrow> bool" where
  "is_object (JObject ms) = True"
| "is_object _ = False"

text \<open>
  An invariant of the recogniser once the first token was \<^verbatim>\<open>{\<close>: the outermost open
  container is an object, or the finished value is one.
\<close>

fun object_at_bottom :: "frame list \<Rightarrow> bool" where
  "object_at_bottom [] = False"
| "object_at_bottom [InObject ms k] = True"
| "object_at_bottom [InArray vs] = False"
| "object_at_bottom (f # g # fs) = object_at_bottom (g # fs)"

fun rooted :: "pstate \<Rightarrow> bool" where
  "rooted (NeedValue fs) = object_at_bottom fs"
| "rooted (ArrayOpened fs) = object_at_bottom fs"
| "rooted (ObjectOpened fs) = (fs = [] \<or> object_at_bottom fs)"
| "rooted (NeedKey ms fs) = (fs = [] \<or> object_at_bottom fs)"
| "rooted (NeedColon ms k fs) = (fs = [] \<or> object_at_bottom fs)"
| "rooted (Have v fs) = (if fs = [] then is_object v else object_at_bottom fs)"

section \<open>Properties of the Gateway and the Dispatcher\<close>

subsection \<open>The shared call block\<close>

lemma generate_eq:
  "generate model p l f w =
     (case model p of
        Inr text \<Rightarrow> (Inr text, w\<lparr>calls := calls w @ [p]\<rparr>)
      | Inl m \<Rightarrow> (Inl f, w\<lparr>calls := calls w @ [p], console := console w @ [(l, Error m)]\<rparr>))"
  by (simp add: generate_def generateContent_def console_error_def split: sum.splits)

lemma fst_generate:
  "fst (generate model p l f w) = (case model p of Inr text \<Rightarrow> Inr text | Inl m \<Rightarrow> Inl f)"
  by (simp add: generate_eq split: sum.splits)

lemma calls_generate: "calls (snd (generate model p l f w)) = calls w @ [p]"
  by (simp add: generate_eq split: sum.splits)

lemma fst_dispatch_world:
  "fst (dispatch model md msg conversation w) = fst (dispatch model md msg conversation w')"
  by (simp add: dispatch_def generateCode_def generateJavaCode_def generateFirebaseFunction_def
      analyzeCode_def chat_def fst_generate)

subsection \<open>Request validation\<close>

text \<open>
  C7. A request to the chat route or to the project-builder route whose method is not
  \<^verbatim>\<open>POST\<close> is answered with status 405 and the body \<^verbatim>\<open>{ error: 'Method not allowed' }\<close>,
  whatever its body holds, and the world is unchanged: no prompt reaches the provider.
\<close>

theorem non_post_method_not_allowed:
  assumes "req_method req \<noteq> ''POST''" and "req_method req' \<noteq> ''POST''"
  shows "chat_handler engine model now req w =
           (\<lparr>status = 405, payload = JObject [(''error'', JString ''Method not allowed'')]\<rparr>, w)
       \<and> project_builder_handler engine model now req' w =
           (\<lparr>status = 405, payload = JObject [(''error'', JString ''Method not allowed'')]\<rparr>, w)"
  using assms by (simp add: chat_handler_def project_builder_handler_def)

theorem non_post_method_not_allowed_witness:
  "chat_handler sample_engine (\<lambda>p. Inr ''ok'') ''2024-01-01T00:00:00.000Z''
      \<lparr>req_method = ''GET'',
       body = Body \<lparr>message = Some ''hello'', mode = None, conversationHistory = None\<rparr>\<rparr> idle
     = (\<lparr>status = 405, payload = JObject [(''error'', JString ''Method not allowed'')]\<rparr>, idle)
   \<and> project_builder_handler sample_engine (\<lambda>p. Inr ''ok'') ''2024-01-01T00:00:00.000Z''
      \<lparr>req_method = ''PUT'', body = NullBody\<rparr> idle
     = (\<lparr>status = 405, payload = JObject [(''error'', JString ''Method not allowed'')]\<rparr>, idle)"
  by (rule non_post_method_not_allowed) simp_all




subsection \<open>Mode dispatch\<close>

text \<open>
  C3, as amended. A chat request whose mode is none of \<^verbatim>\<open>code\<close>, \<^verbatim>\<open>java\<close>,
  \<^verbatim>\<open>firebase\<close>, \<^verbatim>\<open>analyze\<close> is handled as the same request with mode \<^verbatim>\<open>chat\<close>: the
  same prompts reach the provider and the console, the status is the same, and every
  field of the body but \<^verbatim>\<open>mode\<close> is the same. The \<^verbatim>\<open>mode\<close> field of a 200 body echoes
  the mode of the request.
\<close>

theorem unrecognized_mode_as_chat:
  assumes "md \<notin> {''code'', ''java'', ''firebase'', ''analyze''}"
  shows "snd (chat_handler engine model now
               (req\<lparr>body := map_req_body (\<lambda>b. b\<lparr>mode := Some md\<rparr>) (body req)\<rparr>) w)
           = snd (chat_handler engine model now
               (req\<lparr>body := map_req_body (\<lambda>b. b\<lparr>mode := Some ''chat''\<rparr>) (body req)\<rparr>) w)
       \<and> status (fst (chat_handler engine model now
               (req\<lparr>body := map_req_body (\<lambda>b. b\<lparr>mode := Some md\<rparr>) (body req)\<rparr>) w))
           = status (fst (chat_handler engine model now
               (req\<lparr>body := map_req_body (\<lambda>b. b\<lparr>mode := Some ''chat''\<rparr>) (body req)\<rparr>) w))
       \<and> (\<forall>k. k \<noteq> ''mode'' \<longrightarrow>
             field k (payload (fst (chat_handler engine model now
               (req\<lparr>body := map_req_body (\<lambda>b. b\<lparr>mode := Some md\<rparr>) (body req)\<rparr>) w)))
           = field k (payload (fst (chat_handler engine model now
               (req\<lparr>body := map_req_body (\<lambda>b. b\<lparr>mode := Some ''chat''\<rparr>) (body req)\<rparr>) w))))
       \<and> (status (fst (chat_handler engine model now
               (req\<lparr>body := map_req_body (\<lambda>b. b\<lparr>mode := Some md\<rparr>) (body req)\<rparr>) w)) = 200
            \<longrightarrow> field ''mode'' (payload (fst (chat_handler engine model now
               (req\<lparr>body := map_req_body (\<lambda>b. b\<lparr>mode := Some md\<rparr>) (body req)\<rparr>) w)))
                  = Some (JString md))"
  using assms
  by (cases "body req")
     (auto simp: chat_handler_def chat_failed_def console_error_def dispatch_def Let_def
           split: option.splits sum.splits prod.splits)

theorem unrecognized_mode_as_chat_witness:
  "snd (chat_handler sample_engine (\<lambda>p. Inr ''ok'') ''2024-01-01T00:00:00.000Z''
      \<lparr>req_method = ''POST'',
       body = Body \<lparr>message = Some ''hi'', mode = Some ''poem'', conversationHistory = None\<rparr>\<rparr> idle)
     = snd (chat_handler sample_engine (\<lambda>p. Inr ''ok'') ''2024-01-01T00:00:00.000Z''
      \<lparr>req_method = ''POST'',
       body = Body \<lparr>message = Some ''hi'', mode = Some ''chat'', conversationHistory = None\<rparr>\<rparr> idle)
   \<and> field ''response'' (payload (fst (chat_handler sample_engine (\<lambda>p. Inr ''ok'') ''2024-01-01T00:00:00.000Z''
      \<lparr>req_method = ''POST'',
       body = Body \<lparr>message = Some ''hi'', mode = Some ''poem'', conversationHistory = None\<rparr>\<rparr> idle)))
     = field ''response'' (payload (fst (chat_handler sample_engine (\<lambda>p. Inr ''ok'') ''2024-01-01T00:00:00.000Z''
      \<lparr>req_method = ''POST'',
       body = Body \<lparr>message = Some ''hi'', mode = Some ''chat'', conversationHistory = None\<rparr>\<rparr> idle)))"
  using unrecognized_mode_as_chat [where md = "''poem''" and engine = sample_engine
      and model = "\<lambda>p. Inr ''ok''" and now = "''2024-01-01T00:00:00.000Z''" and w = idle
      and req = "\<lparr>req_method = ''POST'',
        body = Body \<lparr>message = Some ''hi'', mode = None, conversationHistory = None\<rparr>\<rparr>"]
  by simp

text \<open>
  C3 as stated fails: for the mode \<^verbatim>\<open>poem\<close> the body of the response differs from the
  body for the mode \<^verbatim>\<open>chat\<close>, since it echoes the mode.
\<close>

theorem unrecognized_mode_body_counterexample:
  "payload (fst (chat_handler sample_engine (\<lambda>p. Inr ''ok'') ''2024-01-01T00:00:00.000Z''
      \<lparr>req_method = ''POST'',
       body = Body \<lparr>message = Some ''hi'', mode = Some ''poem'', conversationHistory = None\<rparr>\<rparr> idle))
   \<noteq> payload (fst (chat_handler sample_engine (\<lambda>p. Inr ''ok'') ''2024-01-01T00:00:00.000Z''
      \<lparr>req_method = ''POST'',
       body = Body \<lparr>message = Some ''hi'', mode = Some ''chat'', conversationHistory = None\<rparr>\<rparr> idle))"
  by (simp add: chat_handler_def truthy_def dispatch_def chat_def generate_eq Let_def)

text \<open>
  C10. On a chat request with one of the modes \<^verbatim>\<open>code\<close>, \<^verbatim>\<open>java\<close>, \<^verbatim>\<open>firebase\<close>,
  \<^verbatim>\<open>analyze\<close> the conversation history is ignored, and the one prompt submitted is the
  template of the mode filled with the message and fixed parameters: language
  \<^verbatim>\<open>javascript\<close> and three fixed requirements for \<^verbatim>\<open>code\<close>, class name
  \<^verbatim>\<open>GeneratedClass\<close> and three fixed features for \<^verbatim>\<open>java\<close>, function name
  \<^verbatim>\<open>generatedFunction\<close> for \<^verbatim>\<open>firebase\<close>, language \<^verbatim>\<open>javascript\<close> for \<^verbatim>\<open>analyze\<close>.
\<close>

theorem non_chat_modes_fixed_parameters:
  assumes "req_method req = ''POST''"
    and "body req = Body b"
    and "truthy (message b) = Some msg"
    and "mode b = Some md"
    and "md \<in> {''code'', ''java'', ''firebase'', ''analyze''}"
  shows "chat_handler engine model now (req\<lparr>body := Body (b\<lparr>conversationHistory := h\<rparr>)\<rparr>) w
           = chat_handler engine model now req w
       \<and> calls (snd (chat_handler engine model now req w)) =
           calls w @
             [if md = ''code'' then
                generateCode_prompt ''javascript'' msg
                  [''Clean, readable code'', ''Error handling'', ''Best practices'']
              else if md = ''java'' then
                generateJavaCode_prompt ''GeneratedClass'' msg
                  [''Modern Java patterns'', ''Documentation'', ''Unit tests'']
              else if md = ''firebase'' then
                generateFirebaseFunction_prompt ''generatedFunction'' msg
              else analyzeCode_prompt msg ''javascript'']"
  using assms
  by (auto simp: chat_handler_def chat_failed_def dispatch_def generateCode_def
      generateJavaCode_def generateFirebaseFunction_def analyzeCode_def generate_eq
      console_error_def Let_def split: sum.splits)

theorem non_chat_modes_fixed_parameters_witness:
  "chat_handler sample_engine (\<lambda>p. Inr ''class GeneratedClass {}'') ''2024-01-01T00:00:00.000Z''
      \<lparr>req_method = ''POST'',
       body = Body \<lparr>message = Some ''a stack'', mode = Some ''java'',
               conversationHistory = Some [\<lparr>role = ''user'', content = ''earlier''\<rparr>]\<rparr>\<rparr> idle
     = chat_handler sample_engine (\<lambda>p. Inr ''class GeneratedClass {}'') ''2024-01-01T00:00:00.000Z''
      \<lparr>req_method = ''POST'',
       body = Body \<lparr>message = Some ''a stack'', mode = Some ''java'', conversationHistory = None\<rparr>\<rparr> idle
   \<and> calls (snd (chat_handler sample_engine (\<lambda>p. Inr ''class GeneratedClass {}'') ''2024-01-01T00:00:00.000Z''
      \<lparr>req_method = ''POST'',
       body = Body \<lparr>message = Some ''a stack'', mode = Some ''java'', conversationHistory = None\<rparr>\<rparr> idle))
     = [generateJavaCode_prompt ''GeneratedClass'' ''a stack''
          [''Modern Java patterns'', ''Documentation'', ''Unit tests'']]"
  using non_chat_modes_fixed_parameters [where
      req = "\<lparr>req_method = ''POST'',
        body = Body \<lparr>message = Some ''a stack'', mode = Some ''java'', conversationHistory = None\<rparr>\<rparr>"
      and b = "\<lparr>message = Some ''a stack'', mode = Some ''java'', conversationHistory = None\<rparr>"
      and msg = "''a stack''" and md = "''java''"
      and h = "Some [\<lparr>role = ''user'', content = ''earlier''\<rparr>]"
      and engine = sample_engine
      and model = "\<lambda>p. Inr ''class GeneratedClass {}''" and now = "''2024-01-01T00:00:00.000Z''"
      and w = idle]
  by (simp add: truthy_def idle_def)

subsection \<open>Provider failure\<close>

text \<open>
  C2, as amended. Take a \<^verbatim>\<open>POST\<close> to the chat route with a non-empty message, and the
  one prompt that the request submits, the template of its mode. When the provider
  throws an error with message \<open>m\<close> at that prompt, the response is 500 with \<^verbatim>\<open>error\<close>
  equal to \<^verbatim>\<open>Failed to process chat message\<close> and \<^verbatim>\<open>details\<close> equal to the fixed
  message of the Gateway method for the mode; the response is the same for every other
  provider that throws at that prompt, whatever its message. The message \<open>m\<close> is written
  to the console, under the label of the Gateway method, before the line of the route.
\<close>

theorem provider_failure_is_500:
  assumes "req_method req = ''POST''"
    and "body req = Body b"
    and "truthy (message b) = Some msg"
    and "md = (case mode b of None \<Rightarrow> ''chat'' | Some x \<Rightarrow> x)"
    and "submitted =
           (if md = ''code'' then
              generateCode_prompt ''javascript'' msg
                [''Clean, readable code'', ''Error handling'', ''Best practices'']
            else if md = ''java'' then
              generateJavaCode_prompt ''GeneratedClass'' msg
                [''Modern Java patterns'', ''Documentation'', ''Unit tests'']
            else if md = ''firebase'' then
              generateFirebaseFunction_prompt ''generatedFunction'' msg
            else if md = ''analyze'' then analyzeCode_prompt msg ''javascript''
            else chat_prompt msg (case conversationHistory b of None \<Rightarrow> [] | Some x \<Rightarrow> x))"
    and "failure =
           (if md = ''code'' then ''Failed to generate code''
            else if md = ''java'' then ''Failed to generate Java code''
            else if md = ''firebase'' then ''Failed to generate Firebase function''
            else if md = ''analyze'' then ''Failed to analyze code''
            else ''Failed to process chat message'')"
    and "label =
           (if md = ''code'' then ''Code generation error:''
            else if md = ''java'' then ''Java code generation error:''
            else if md = ''firebase'' then ''Firebase function generation error:''
            else if md = ''analyze'' then ''Code analysis error:''
            else ''Chat error:'')"
    and "model submitted = Inl m"
  shows "fst (chat_handler engine model now req w) =
           \<lparr>status = 500,
            payload = JObject [(''error'', JString ''Failed to process chat message''),
                               (''details'', JString failure)]\<rparr>
       \<and> calls (snd (chat_handler engine model now req w)) = calls w @ [submitted]
       \<and> console (snd (chat_handler engine model now req w)) =
           console w @ [(label, Error m), (''Chat API Error:'', Error failure)]
       \<and> (\<forall>model' m'. model' submitted = Inl m' \<longrightarrow>
             fst (chat_handler engine model' now req w) = fst (chat_handler engine model now req w))"
proof -
  let ?h = "case conversationHistory b of None \<Rightarrow> [] | Some x \<Rightarrow> x"
  have d: "dispatch model' md msg ?h w =
      (Inl failure,
       w\<lparr>calls := calls w @ [submitted], console := console w @ [(label, Error m')]\<rparr>)"
    if fails: "model' submitted = Inl m'" for model' m'
  proof -
    consider (code) "md = ''code''" | (java) "md = ''java''" | (firebase) "md = ''firebase''"
      | (analyze) "md = ''analyze''"
      | (other) "md \<notin> {''code'', ''java'', ''firebase'', ''analyze''}"
      by auto
    then show ?thesis
    proof cases
      case code
      with fails assms(5-7) show ?thesis
        by (simp add: dispatch_def generateCode_def generate_eq)
    next
      case java
      with fails assms(5-7) show ?thesis
        by (simp add: dispatch_def generateJavaCode_def generate_eq)
    next
      case firebase
      with fails assms(5-7) show ?thesis
        by (simp add: dispatch_def generateFirebaseFunction_def generate_eq)
    next
      case analyze
      with fails assms(5-7) show ?thesis
        by (simp add: dispatch_def analyzeCode_def generate_eq)
    next
      case other
      with fails assms(5-7) show ?thesis
        by (simp add: dispatch_def chat_def generate_eq)
    qed
  qed
  have r: "chat_handler engine model' now req w =
      (\<lparr>status = 500,
        payload = JObject [(''error'', JString ''Failed to process chat message''),
                           (''details'', JString failure)]\<rparr>,
       w\<lparr>calls := calls w @ [submitted],
          console := console w @ [(label, Error m'), (''Chat API Error:'', Error failure)]\<rparr>)"
    if fails: "model' submitted = Inl m'" for model' m'
    using assms(1-4) d [of model' m', OF fails]
    by (simp add: chat_handler_def chat_failed_def console_error_def Let_def)
  have here: "chat_handler engine model now req w =
      (\<lparr>status = 500,
        payload = JObject [(''error'', JString ''Failed to process chat message''),
                           (''details'', JString failure)]\<rparr>,
       w\<lparr>calls := calls w @ [submitted],
          console := console w @ [(label, Error m), (''Chat API Error:'', Error failure)]\<rparr>)"
    by (rule r [of model m, OF assms(8)])
  have "fst (chat_handler engine model' now req w) = fst (chat_handler engine model now req w)"
    if "model' submitted = Inl m'" for model' m'
    using r [of model' m', OF that] here by simp
  with here show ?thesis by simp
qed

theorem provider_failure_is_500_witness:
  "fst (chat_handler sample_engine
      (\<lambda>p. if p = generateCode_prompt ''javascript'' ''sort a list''
                     [''Clean, readable code'', ''Error handling'', ''Best practices'']
            then Inl ''quota exceeded'' else Inr ''ok'')
      ''2024-01-01T00:00:00.000Z''
      \<lparr>req_method = ''POST'',
       body = Body \<lparr>message = Some ''sort a list'', mode = Some ''code'',
                    conversationHistory = None\<rparr>\<rparr> idle)
     = \<lparr>status = 500,
        payload = JObject [(''error'', JString ''Failed to process chat message''),
                           (''details'', JString ''Failed to generate code'')]\<rparr>
   \<and> console (snd (chat_handler sample_engine
      (\<lambda>p. if p = generateCode_prompt ''javascript'' ''sort a list''
                     [''Clean, readable code'', ''Error handling'', ''Best practices'']
            then Inl ''quota exceeded'' else Inr ''ok'')
      ''2024-01-01T00:00:00.000Z''
      \<lparr>req_method = ''POST'',
       body = Body \<lparr>message = Some ''sort a list'', mode = Some ''code'',
                    conversationHistory = None\<rparr>\<rparr> idle))
     = [(''Code generation error:'', Error ''quota exceeded''),
        (''Chat API Error:'', Error ''Failed to generate code'')]"
  using provider_failure_is_500 [where
      req = "\<lparr>req_method = ''POST'',
        body = Body \<lparr>message = Some ''sort a list'', mode = Some ''code'',
                     conversationHistory = None\<rparr>\<rparr>"
      and b = "\<lparr>message = Some ''sort a list'', mode = Some ''code'', conversationHistory = None\<rparr>"
      and msg = "''sort a list''" and md = "''code''"
      and submitted = "generateCode_prompt ''javascript'' ''sort a list''
                     [''Clean, readable code'', ''Error handling'', ''Best practices'']"
      and failure = "''Failed to generate code''" and label = "''Code generation error:''"
      and model = "\<lambda>p. if p = generateCode_prompt ''javascript'' ''sort a list''
                     [''Clean, readable code'', ''Error handling'', ''Best practices'']
            then Inl ''quota exceeded'' else Inr ''ok''"
      and m = "''quota exceeded''" and engine = sample_engine
      and now = "''2024-01-01T00:00:00.000Z''" and w = idle]
  by (simp add: truthy_def idle_def)

text \<open>
  C2 as stated fails: the provider throws \<^verbatim>\<open>quota exceeded\<close>, and the \<^verbatim>\<open>details\<close> of the
  500 response is \<^verbatim>\<open>Failed to process chat message\<close>, which does not contain it.
\<close>

theorem provider_message_counterexample:
  "status (fst (chat_handler sample_engine (\<lambda>p. Inl ''quota exceeded'') ''2024-01-01T00:00:00.000Z''
      \<lparr>req_method = ''POST'',
       body = Body \<lparr>message = Some ''hi'', mode = None, conversationHistory = None\<rparr>\<rparr> idle)) = 500
   \<and> field ''details'' (payload (fst (chat_handler sample_engine (\<lambda>p. Inl ''quota exceeded'')
      ''2024-01-01T00:00:00.000Z''
      \<lparr>req_method = ''POST'',
       body = Body \<lparr>message = Some ''hi'', mode = None, conversationHistory = None\<rparr>\<rparr> idle)))
       = Some (JString ''Failed to process chat message'')
   \<and> \<not> sublist ''quota exceeded'' ''Failed to process chat message''"
  by (simp add: chat_handler_def chat_failed_def truthy_def dispatch_def chat_def generate_eq
      sublist_Cons_right Let_def)

subsection \<open>Determinism\<close>

text \<open>
  C8. With the provider a function of the prompt, two runs of the chat route on the same
  request, at any two clock readings and from any two worlds, give the same status and
  the same \<^verbatim>\<open>response\<close> field, and submit the same prompts: only the timestamp depends
  on the run.
\<close>

theorem chat_response_deterministic:
  "status (fst (chat_handler engine model now req w))
     = status (fst (chat_handler engine model now' req w'))
   \<and> field ''response'' (payload (fst (chat_handler engine model now req w)))
     = field ''response'' (payload (fst (chat_handler engine model now' req w')))
   \<and> calls (snd (chat_handler engine model now req w))
     = calls (snd (chat_handler engine model now' req w))"
proof (cases "req_method req = ''POST''")
  case False
  then show ?thesis by (simp add: chat_handler_def)
next
  case True
  show ?thesis
  proof (cases "body req")
    case NullBody
    with True show ?thesis by (simp add: chat_handler_def chat_failed_def console_error_def)
  next
    case UndefinedBody
    with True show ?thesis by (simp add: chat_handler_def chat_failed_def console_error_def)
  next
    case (Body b)
    show ?thesis
    proof (cases "truthy (message b)")
      case None
      with True Body show ?thesis by (simp add: chat_handler_def Let_def)
    next
      case (Some msg)
      define md where "md = (case mode b of None \<Rightarrow> ''chat'' | Some x \<Rightarrow> x)"
      define h where "h = (case conversationHistory b of None \<Rightarrow> [] | Some x \<Rightarrow> x)"
      have "fst (dispatch model md msg h w) = fst (dispatch model md msg h w')"
        by (rule fst_dispatch_world)
      with True Body Some show ?thesis
        by (auto simp: chat_handler_def chat_failed_def Let_def md_def h_def
            split: prod.splits sum.splits)
    qed
  qed
qed

theorem chat_response_deterministic_witness:
  "field ''response'' (payload (fst (chat_handler sample_engine
      (\<lambda>p. Inr ''function add(a, b) { return a + b; }'')
      ''2024-01-01T00:00:00.000Z''
      \<lparr>req_method = ''POST'',
       body = Body \<lparr>message = Some ''Write a function that adds two numbers'', mode = Some ''code'',
               conversationHistory = None\<rparr>\<rparr> idle)))
   = field ''response'' (payload (fst (chat_handler sample_engine
      (\<lambda>p. Inr ''function add(a, b) { return a + b; }'')
      ''2024-06-30T12:00:00.000Z''
      \<lparr>req_method = ''POST'',
       body = Body \<lparr>message = Some ''Write a function that adds two numbers'', mode = Some ''code'',
               conversationHistory = None\<rparr>\<rparr>
      \<lparr>calls = [''an earlier prompt''], console = []\<rparr>)))"
  using chat_response_deterministic by blast

subsection \<open>Conversation history\<close>

lemma join_nth:
  assumes "i < length xs"
  shows "\<exists>p r. join sep xs = p @ xs ! i @ r
           \<and> (\<forall>j. i < j \<and> j < length xs \<longrightarrow> (\<exists>q r'. r = q @ xs ! j @ r'))"
  using assms
proof (induction sep xs arbitrary: i rule: join.induct)
  case (1 sep)
  then show ?case by simp
next
  case (2 sep x)
  then have "join sep [x] = [] @ [x] ! i @ []
      \<and> (\<forall>j. i < j \<and> j < length [x] \<longrightarrow> (\<exists>q r'. [] = q @ [x] ! j @ r'))"
    by simp
  then show ?case by blast
next
  case (3 sep x y ys)
  show ?case
  proof (cases i)
    case 0
    have "\<exists>q r'. sep @ join sep (y # ys) = q @ (x # y # ys) ! j @ r'"
      if "0 < j" "j < length (x # y # ys)" for j
    proof -
      from that obtain j' where j': "j = Suc j'" "j' < length (y # ys)" by (cases j) auto
      from "3.IH" [OF j'(2)] obtain p r where "join sep (y # ys) = p @ (y # ys) ! j' @ r"
        by blast
      then have "sep @ join sep (y # ys) = (sep @ p) @ (x # y # ys) ! j @ r" using j' by simp
      then show ?thesis by blast
    qed
    then have "join sep (x # y # ys) = [] @ (x # y # ys) ! i @ (sep @ join sep (y # ys))
       \<and> (\<forall>j. i < j \<and> j < length (x # y # ys) \<longrightarrow>
            (\<exists>q r'. sep @ join sep (y # ys) = q @ (x # y # ys) ! j @ r'))"
      using 0 by simp
    then show ?thesis by blast
  next
    case (Suc i')
    with "3.prems" have i': "i' < length (y # ys)" by simp
    from "3.IH" [OF i'] obtain p r where pr: "join sep (y # ys) = p @ (y # ys) ! i' @ r"
      "\<forall>j. i' < j \<and> j < length (y # ys) \<longrightarrow> (\<exists>q r'. r = q @ (y # ys) ! j @ r')"
      by blast
    have "\<exists>q r'. r = q @ (x # y # ys) ! j @ r'" if "i < j" "j < length (x # y # ys)" for j
    proof -
      from that Suc obtain j' where j': "j = Suc j'" "i' < j'" "j' < length (y # ys)"
        by (cases j) auto
      with pr(2) show ?thesis by auto
    qed
    moreover have "join sep (x # y # ys) = (x @ sep @ p) @ (x # y # ys) ! i @ r"
      using pr(1) Suc by simp
    ultimately show ?thesis by blast
  qed
qed

lemma chat_prompt_eq:
  "chat_prompt msg h =
     (if h = [] then []
      else ''Previous conversation:\<newline>'' @ join ''\<newline>'' (map render_turn h) @ ''\<newline>\<newline>'')
     @ ''User: '' @ msg"
  by (simp add: chat_prompt_def)

text \<open>
  C4. \<^verbatim>\<open>chat\<close> submits one prompt: the turns of the history, each rendered as
  \<^verbatim>\<open>role: content\<close>, joined by newlines in their order (under the heading
  \<^verbatim>\<open>Previous conversation:\<close> and followed by an empty line when there is a history), then
  \<^verbatim>\<open>User: \<close> and the message. An earlier turn stands before a later one, and every
  turn before the message. For the history user/a, assistant/b and the message c the
  prompt holds \<^verbatim>\<open>user: a\<close>, then \<^verbatim>\<open>assistant: b\<close>, then \<^verbatim>\<open>User: c\<close>.
\<close>

theorem chat_prompt_in_order:
  "calls (snd (chat model msg h w)) = calls w @ [chat_prompt msg h]
   \<and> chat_prompt msg h =
       (if h = [] then []
        else ''Previous conversation:\<newline>'' @ join ''\<newline>'' (map render_turn h) @ ''\<newline>\<newline>'')
       @ ''User: '' @ msg
   \<and> (\<forall>i j. i < j \<and> j < length h \<longrightarrow>
         (\<exists>p q r. chat_prompt msg h =
            p @ render_turn (h ! i) @ q @ render_turn (h ! j) @ r @ ''User: '' @ msg))
   \<and> chat_prompt ''c'' [\<lparr>role = ''user'', content = ''a''\<rparr>, \<lparr>role = ''assistant'', content = ''b''\<rparr>]
       = ''Previous conversation:\<newline>user: a\<newline>assistant: b\<newline>\<newline>User: c''"
proof (intro conjI allI impI)
  show "calls (snd (chat model msg h w)) = calls w @ [chat_prompt msg h]"
    by (simp add: chat_def calls_generate)
  show "chat_prompt msg h =
       (if h = [] then []
        else ''Previous conversation:\<newline>'' @ join ''\<newline>'' (map render_turn h) @ ''\<newline>\<newline>'')
       @ ''User: '' @ msg"
    by (rule chat_prompt_eq)
  show "chat_prompt ''c'' [\<lparr>role = ''user'', content = ''a''\<rparr>, \<lparr>role = ''assistant'', content = ''b''\<rparr>]
       = ''Previous conversation:\<newline>user: a\<newline>assistant: b\<newline>\<newline>User: c''"
    by (simp add: chat_prompt_def render_turn_def)
next
  fix i j assume ij: "i < j \<and> j < length h"
  then have i: "i < length (map render_turn h)" and j: "j < length (map render_turn h)"
    by simp_all
  from join_nth [OF i, of "''\<newline>''"] obtain p r where
    pr: "join ''\<newline>'' (map render_turn h) = p @ map render_turn h ! i @ r"
    and later: "\<forall>j. i < j \<and> j < length (map render_turn h) \<longrightarrow>
                  (\<exists>q r'. r = q @ map render_turn h ! j @ r')"
    by blast
  from later ij j obtain q r' where r: "r = q @ map render_turn h ! j @ r'" by blast
  from ij have "h \<noteq> []" by auto
  then have "chat_prompt msg h =
      (''Previous conversation:\<newline>'' @ p) @ render_turn (h ! i) @ q @ render_turn (h ! j)
        @ (r' @ ''\<newline>\<newline>'') @ ''User: '' @ msg"
    using pr r ij by (simp add: chat_prompt_eq)
  then show "\<exists>p q r. chat_prompt msg h =
      p @ render_turn (h ! i) @ q @ render_turn (h ! j) @ r @ ''User: '' @ msg"
    by blast
qed

theorem chat_prompt_in_order_witness:
  "calls (snd (chat (\<lambda>p. Inr ''ok'') ''c''
      [\<lparr>role = ''user'', content = ''a''\<rparr>, \<lparr>role = ''assistant'', content = ''b''\<rparr>] idle))
     = [''Previous conversation:\<newline>user: a\<newline>assistant: b\<newline>\<newline>User: c'']
   \<and> (\<exists>p q r. chat_prompt ''c'' [\<lparr>role = ''user'', content = ''a''\<rparr>, \<lparr>role = ''assistant'', content = ''b''\<rparr>]
         = p @ ''user: a'' @ q @ ''assistant: b'' @ r @ ''User: c'')"
proof -
  let ?h = "[\<lparr>role = ''user'', content = ''a''\<rparr>, \<lparr>role = ''assistant'', content = ''b''\<rparr>]"
  note t = chat_prompt_in_order [of "\<lambda>p. Inr ''ok''" "''c''" ?h idle]
  from t have c: "calls (snd (chat (\<lambda>p. Inr ''ok'') ''c'' ?h idle))
      = [''Previous conversation:\<newline>user: a\<newline>assistant: b\<newline>\<newline>User: c'']"
    by (simp add: idle_def render_turn_def)
  from t have "\<forall>i j. i < j \<and> j < length ?h \<longrightarrow>
      (\<exists>p q r. chat_prompt ''c'' ?h =
         p @ render_turn (?h ! i) @ q @ render_turn (?h ! j) @ r @ ''User: '' @ ''c'')"
    by blast
  then have "(0::nat) < 1 \<and> 1 < length ?h \<longrightarrow>
      (\<exists>p q r. chat_prompt ''c'' ?h =
         p @ render_turn (?h ! 0) @ q @ render_turn (?h ! 1) @ r @ ''User: '' @ ''c'')"
    by blast
  then have "\<exists>p q r. chat_prompt ''c'' ?h = p @ ''user: a'' @ q @ ''assistant: b'' @ r @ ''User: c''"
    by (simp add: render_turn_def)
  with c show ?thesis by blast
qed

subsection \<open>The project plan\<close>

lemma object_at_bottom_InArray [simp]:
  "object_at_bottom (InArray vs # fs) = object_at_bottom fs"
  by (cases fs) auto

lemma object_at_bottom_InObject [simp]:
  "object_at_bottom (InObject ms k # fs) = (fs = [] \<or> object_at_bottom fs)"
  by (cases fs) auto

lemma begin_value_rooted:
  "begin_value t fs = Some s' \<Longrightarrow> object_at_bottom fs \<Longrightarrow> rooted s'"
  by (cases t) auto

lemma step_rooted: "step s t = Some s' \<Longrightarrow> rooted s \<Longrightarrow> rooted s'"
  by (induction s t rule: step.induct)
     (auto dest: begin_value_rooted split: if_splits)

lemma run_rooted: "run s ts = Some v \<Longrightarrow> rooted s \<Longrightarrow> is_object v"
proof (induction ts arbitrary: s)
  case Nil
  then show ?case
  proof (cases s)
    case (Have u fs)
    with Nil show ?thesis by (cases fs) auto
  qed auto
next
  case (Cons t ts)
  then show ?case by (auto split: option.splits dest: step_rooted)
qed

text \<open>A text that starts with \<^verbatim>\<open>{\<close> and parses is an object.\<close>

lemma JSON_parse_brace:
  assumes "JSON_parse (CHR ''{'' # cs) = Some v"
  shows "is_object v"
proof -
  from assms obtain ts where "lex cs = Some ts"
    and "run (NeedValue []) (LBrace # ts) = Some v"
    by (auto simp: JSON_parse_def is_ws_def split: option.splits)
  then have "run (ObjectOpened []) ts = Some v" by simp
  then show ?thesis by (rule run_rooted) simp
qed

text \<open>The match of the regular expression starts with \<^verbatim>\<open>{\<close>.\<close>

lemma jsonMatch_brace:
  assumes "jsonMatch response_text = Some matched"
  shows "\<exists>cs. matched = CHR ''{'' # cs"
proof -
  define opened where "opened = dropWhile (\<lambda>c. c \<noteq> CHR ''{'') response_text"
  from assms have closing: "CHR ''}'' \<in> set opened"
    and matched: "matched = rev (dropWhile (\<lambda>c. c \<noteq> CHR ''}'') (rev opened))"
    by (auto simp: jsonMatch_def opened_def Let_def split: if_splits)
  from closing have "opened \<noteq> []" by auto
  then have first: "hd opened = CHR ''{''"
    using hd_dropWhile [of "\<lambda>c. c \<noteq> CHR ''{''" response_text] unfolding opened_def by auto
  have parts: "opened = matched @ rev (takeWhile (\<lambda>c. c \<noteq> CHR ''}'') (rev opened))"
    unfolding matched
    by (metis rev_append rev_rev_ident takeWhile_dropWhile_id)
  from closing have "matched \<noteq> []"
    unfolding matched by (auto simp: dropWhile_eq_Nil_conv)
  with parts first have "hd matched = CHR ''{''" by (metis hd_append2)
  with \<open>matched \<noteq> []\<close> show ?thesis by (cases matched) auto
qed

text \<open>
  C1. The claim is that a response whose span from the first \<^verbatim>\<open>{\<close> to the last \<^verbatim>\<open>}\<close> is
  not JSON still gives a 200 with the raw text. The code does otherwise: \<^verbatim>\<open>JSON.parse\<close>
  throws inside the \<^verbatim>\<open>try\<close> block, the \<^verbatim>\<open>catch\<close> throws
  \<^verbatim>\<open>Failed to generate project plan\<close>, and the route answers 500; the raw text is lost.
  What the theorem states is this behaviour of the code.
\<close>

theorem malformed_plan_escalates:
  assumes "req_method req = ''POST''"
    and "body req = Body b"
    and "requirement_list engine (requirements b) = Inr required"
    and "model (generateProjectPlan_prompt (prompt b)
             (case projectType b of None \<Rightarrow> ''web'' | Some t \<Rightarrow> t)
             required
             (case buildContext b of None \<Rightarrow> JObject [] | Some c \<Rightarrow> c))
           = Inr response_text"
    and "jsonMatch response_text = Some matched"
    and "JSON_parse matched = None"
  shows "fst (generateProjectPlan engine model (prompt b) (projectType b) (requirements b)
                (buildContext b) w)
           = Inl (Error ''Failed to generate project plan'')
       \<and> fst (project_builder_handler engine model now req w) =
           \<lparr>status = 500,
            payload = JObject [(''error'', JString ''Failed to generate project plan''),
                               (''details'', JString ''Failed to generate project plan'')]\<rparr>"
  using assms
  by (simp add: project_builder_handler_def project_failed_def generateProjectPlan_def
      generateContent_def console_error_def Let_def)

theorem malformed_plan_escalates_witness:
  "jsonMatch ''Here is the plan: {oops} Enjoy!'' = Some ''{oops}''
   \<and> JSON_parse ''{oops}'' = None
   \<and> fst (project_builder_handler sample_engine (\<lambda>p. Inr ''Here is the plan: {oops} Enjoy!'')
          ''2024-01-01T00:00:00.000Z''
          \<lparr>req_method = ''POST'',
           body = Body \<lparr>prompt = Some ''a shop'', projectType = None, requirements = None,
                        buildContext = None\<rparr>\<rparr> idle)
       = \<lparr>status = 500,
          payload = JObject [(''error'', JString ''Failed to generate project plan''),
                             (''details'', JString ''Failed to generate project plan'')]\<rparr>
   \<and> fst (project_builder_handler sample_engine (\<lambda>p. Inr ''Here is the plan: oops. Enjoy!'')
          ''2024-01-01T00:00:00.000Z''
          \<lparr>req_method = ''POST'',
           body = Body \<lparr>prompt = Some ''a shop'', projectType = None, requirements = None,
                        buildContext = None\<rparr>\<rparr> idle)
       = \<lparr>status = 200,
          payload = JObject
            [(''success'', JBool True),
             (''projectPlan'',
                JObject [(''analysis'', JString ''Here is the plan: oops. Enjoy!''),
                         (''error'', JString ''Could not parse structured project plan'')]),
             (''timestamp'', JString ''2024-01-01T00:00:00.000Z'')]\<rparr>"
proof -
  have m: "jsonMatch ''Here is the plan: {oops} Enjoy!'' = Some ''{oops}''"
    by (simp add: jsonMatch_def)
  have p: "JSON_parse ''{oops}'' = None"
    by (simp add: JSON_parse_def is_ws_def is_digit_def)
  have n: "jsonMatch ''Here is the plan: oops. Enjoy!'' = None"
    by (simp add: jsonMatch_def)
  have "fst (project_builder_handler sample_engine (\<lambda>p. Inr ''Here is the plan: {oops} Enjoy!'')
          ''2024-01-01T00:00:00.000Z''
          \<lparr>req_method = ''POST'',
           body = Body \<lparr>prompt = Some ''a shop'', projectType = None, requirements = None,
                        buildContext = None\<rparr>\<rparr> idle)
       = \<lparr>status = 500,
          payload = JObject [(''error'', JString ''Failed to generate project plan''),
                             (''details'', JString ''Failed to generate project plan'')]\<rparr>"
    using malformed_plan_escalates [OF _ _ _ _ m p, where
        req = "\<lparr>req_method = ''POST'',
          body = Body \<lparr>prompt = Some ''a shop'', projectType = None, requirements = None,
                       buildContext = None\<rparr>\<rparr>"
        and b = "\<lparr>prompt = Some ''a shop'', projectType = None, requirements = None,
                       buildContext = None\<rparr>"
        and required = "[]" and engine = sample_engine
        and model = "\<lambda>p. Inr ''Here is the plan: {oops} Enjoy!''"
        and now = "''2024-01-01T00:00:00.000Z''" and w = idle]
    by (simp add: requirement_list_def)
  then show ?thesis
    by (simp add: m p n project_builder_handler_def generateProjectPlan_def
        requirement_list_def generateContent_def Let_def)
qed

text \<open>
  C5, as amended. A plan that \<^verbatim>\<open>generateProjectPlan\<close> returns is either the value
  \<^verbatim>\<open>JSON.parse\<close> gives for the span from the first \<^verbatim>\<open>{\<close> to the last \<^verbatim>\<open>}\<close> of the response
  text, which is a JSON object with whatever keys the provider wrote, or, when the text
  has no such span, the object \<^verbatim>\<open>{ analysis: text, error: 'Could not parse structured
  project plan' }\<close>. No key is checked.
\<close>

theorem plan_is_parsed_span:
  assumes "generateProjectPlan engine model p t r c w = (Inr plan, w')"
  shows "\<exists>required response_text.
           requirement_list engine r = Inr required
           \<and> model (generateProjectPlan_prompt p
                   (case t of None \<Rightarrow> ''web'' | Some x \<Rightarrow> x)
                   required
                   (case c of None \<Rightarrow> JObject [] | Some x \<Rightarrow> x)) = Inr response_text
           \<and> (case jsonMatch response_text of
                 Some matched \<Rightarrow> JSON_parse matched = Some plan \<and> is_object plan
               | None \<Rightarrow>
                   plan = JObject [(''analysis'', JString response_text),
                                   (''error'', JString ''Could not parse structured project plan'')])"
  using assms
  by (auto simp: generateProjectPlan_def generateContent_def Let_def
      split: sum.splits option.splits dest: jsonMatch_brace JSON_parse_brace)

theorem plan_is_parsed_span_witness:
  "\<exists>required response_text.
      requirement_list sample_engine None = Inr required
      \<and> (\<lambda>p. Inr ''{}'') (generateProjectPlan_prompt None ''web'' required (JObject []))
          = Inr response_text
      \<and> (case jsonMatch response_text of
            Some matched \<Rightarrow> JSON_parse matched = Some (JObject []) \<and> is_object (JObject [])
          | None \<Rightarrow>
              JObject [] = JObject [(''analysis'', JString response_text),
                                    (''error'', JString ''Could not parse structured project plan'')])"
proof -
  have m: "jsonMatch ''{}'' = Some ''{}''"
    by (simp add: jsonMatch_def)
  have p: "JSON_parse ''{}'' = Some (JObject [])"
    by (simp add: JSON_parse_def is_ws_def)
  have "generateProjectPlan sample_engine (\<lambda>p. Inr ''{}'') None None None None idle
      = (Inr (JObject []),
         idle\<lparr>calls := calls idle @ [generateProjectPlan_prompt None ''web'' [] (JObject [])]\<rparr>)"
    by (simp add: m p generateProjectPlan_def requirement_list_def generateContent_def Let_def)
  from plan_is_parsed_span [OF this] show ?thesis by simp
qed

text \<open>
  C5 as stated fails: the provider answers with an object that has one key, \<^verbatim>\<open>plan\<close>;
  the Gateway returns it as the plan, and it does not have the keys of the contract.
\<close>

theorem plan_shape_counterexample:
  \<open>fst (generateProjectPlan sample_engine (\<lambda>p. Inr ''Sure! {"plan": "later"}'')
          (Some ''a shop'') None None None idle)
     = Inr (JObject [(''plan'', JString ''later'')])
   \<and> \<not> spec_plan_shape (JObject [(''plan'', JString ''later'')])\<close>
proof -
  have m: \<open>jsonMatch ''Sure! {"plan": "later"}'' = Some ''{"plan": "later"}''\<close>
    by (simp add: jsonMatch_def)
  have p: \<open>JSON_parse ''{"plan": "later"}'' = Some (JObject [(''plan'', JString ''later'')])\<close>
    by code_simp
  have s: "\<not> spec_plan_shape (JObject [(''plan'', JString ''later'')])"
    by (auto simp: spec_plan_shape_def plan_keys_def)
  show ?thesis
    using s
    by (simp add: m p generateProjectPlan_def requirement_list_def generateContent_def Let_def)
qed

text \<open>
  C9, as amended. The project-builder route validates nothing, and its status on a
  \<^verbatim>\<open>POST\<close> is 200 or 500, never 400. A body that is \<^verbatim>\<open>null\<close> or \<^verbatim>\<open>undefined\<close> makes the
  destructuring throw, and a \<^verbatim>\<open>requirements\<close> that is \<^verbatim>\<open>null\<close> or not an array makes
  \<^verbatim>\<open>generateProjectPlan\<close> throw while it fills the template: the route answers 500 with
  the message of the \<^verbatim>\<open>TypeError\<close> as \<^verbatim>\<open>details\<close>, and no prompt reaches the provider.
  On a body whose \<^verbatim>\<open>requirements\<close> is an array of strings or missing, with \<^verbatim>\<open>prompt\<close>,
  \<^verbatim>\<open>projectType\<close> and \<^verbatim>\<open>buildContext\<close> present, empty or missing, exactly one prompt is
  submitted, built from the values supplied and the defaults; the route answers 500 when
  the provider throws, and 200 when the provider returns a text that has no span from
  \<^verbatim>\<open>{\<close> to \<^verbatim>\<open>}\<close> or whose span is JSON. Nothing is stated here about a text whose span
  is not JSON.
\<close>

theorem project_builder_outcomes:
  assumes "req_method req = ''POST''"
  shows "status (fst (project_builder_handler engine model now req w)) \<in> {200, 500}
       \<and> (case body req of
            NullBody \<Rightarrow>
              fst (project_builder_handler engine model now req w) =
                \<lparr>status = 500,
                 payload = JObject [(''error'', JString ''Failed to generate project plan''),
                                    (''details'', JString (engine (Destructure_of_null ''prompt'')))]\<rparr>
              \<and> calls (snd (project_builder_handler engine model now req w)) = calls w
          | UndefinedBody \<Rightarrow>
              fst (project_builder_handler engine model now req w) =
                \<lparr>status = 500,
                 payload = JObject [(''error'', JString ''Failed to generate project plan''),
                                    (''details'', JString (engine (Destructure_of_undefined ''prompt'')))]\<rparr>
              \<and> calls (snd (project_builder_handler engine model now req w)) = calls w
          | Body b \<Rightarrow>
              (case requirement_list engine (requirements b) of
                 Inl e \<Rightarrow>
                   fst (project_builder_handler engine model now req w) =
                     \<lparr>status = 500,
                      payload = JObject [(''error'', JString ''Failed to generate project plan''),
                                         (''details'', JString (message_of e))]\<rparr>
                   \<and> calls (snd (project_builder_handler engine model now req w)) = calls w
               | Inr required \<Rightarrow>
                   calls (snd (project_builder_handler engine model now req w)) =
                     calls w @
                       [generateProjectPlan_prompt (prompt b)
                          (case projectType b of None \<Rightarrow> ''web'' | Some t \<Rightarrow> t)
                          required
                          (case buildContext b of None \<Rightarrow> JObject [] | Some c \<Rightarrow> c)]
                   \<and> (case model (generateProjectPlan_prompt (prompt b)
                                   (case projectType b of None \<Rightarrow> ''web'' | Some t \<Rightarrow> t)
                                   required
                                   (case buildContext b of None \<Rightarrow> JObject [] | Some c \<Rightarrow> c)) of
                        Inl m \<Rightarrow> status (fst (project_builder_handler engine model now req w)) = 500
                      | Inr response_text \<Rightarrow>
                          (case jsonMatch response_text of
                             None \<Rightarrow>
                               status (fst (project_builder_handler engine model now req w)) = 200
                           | Some matched \<Rightarrow>
                               (case JSON_parse matched of
                                  Some plan \<Rightarrow>
                                    status (fst (project_builder_handler engine model now req w)) = 200
                                | None \<Rightarrow> True)))))"
  using assms
  by (auto simp: project_builder_handler_def project_failed_def generateProjectPlan_def
      generateContent_def console_error_def Let_def
      split: sum.splits option.splits req_body.splits)

theorem project_builder_outcomes_witness:
  "status (fst (project_builder_handler sample_engine (\<lambda>p. Inr ''A plan in prose.'')
      ''2024-01-01T00:00:00.000Z''
      \<lparr>req_method = ''POST'',
       body = Body \<lparr>prompt = None, projectType = None, requirements = None,
                    buildContext = None\<rparr>\<rparr> idle)) = 200
   \<and> calls (snd (project_builder_handler sample_engine (\<lambda>p. Inr ''A plan in prose.'')
      ''2024-01-01T00:00:00.000Z''
      \<lparr>req_method = ''POST'',
       body = Body \<lparr>prompt = None, projectType = None, requirements = None,
                    buildContext = None\<rparr>\<rparr> idle))
     = [generateProjectPlan_prompt None ''web'' [] (JObject [])]"
proof -
  have n: "jsonMatch ''A plan in prose.'' = None"
    by (simp add: jsonMatch_def)
  show ?thesis
    using project_builder_outcomes [where
      req = "\<lparr>req_method = ''POST'',
        body = Body \<lparr>prompt = None, projectType = None, requirements = None,
                     buildContext = None\<rparr>\<rparr>"
      and engine = sample_engine and model = "\<lambda>p. Inr ''A plan in prose.''"
      and now = "''2024-01-01T00:00:00.000Z''" and w = idle]
    by (simp add: n requirement_list_def idle_def)
qed

text \<open>
  C9 as stated fails: the body supplies \<^verbatim>\<open>requirements: null\<close>, the provider would
  return a text for every prompt, and the route answers 500 without a provider call:
  \<^verbatim>\<open>null\<close> is not replaced by the default, and \<^verbatim>\<open>requirements.join\<close> throws.
\<close>

theorem null_requirements_counterexample:
  "status (fst (project_builder_handler sample_engine (\<lambda>p. Inr ''A plan in prose.'')
      ''2024-01-01T00:00:00.000Z''
      \<lparr>req_method = ''POST'',
       body = Body \<lparr>prompt = Some ''a shop'', projectType = None, requirements = Some NullValue,
                    buildContext = None\<rparr>\<rparr> idle)) = 500
   \<and> calls (snd (project_builder_handler sample_engine (\<lambda>p. Inr ''A plan in prose.'')
      ''2024-01-01T00:00:00.000Z''
      \<lparr>req_method = ''POST'',
       body = Body \<lparr>prompt = Some ''a shop'', projectType = None, requirements = Some NullValue,
                    buildContext = None\<rparr>\<rparr> idle)) = []"
  by (simp add: project_builder_handler_def project_failed_def generateProjectPlan_def
      requirement_list_def console_error_def idle_def)

end
